theory Spec2Isabelle
  imports Complex_Main "HOL-Library.AList"
begin

section \<open>Values of the schema\<close>

text \<open>
  The module \<^verbatim>\<open>ctapipe_io_lst/containers.py\<close> declares seven container classes on top of
  the host framework's \<^verbatim>\<open>Container\<close>, \<^verbatim>\<open>Field\<close> and \<^verbatim>\<open>Map\<close>. A declaration
  \<^verbatim>\<open>name = Field(default, description, unit=None)\<close> attaches a default value, a text and an
  optional physical unit to a field name.

  The only unit of the module is \<^verbatim>\<open>u.rad\<close>; the other units are there so that
  ``angular'' separates units. The only float of the module is numpy's \<^verbatim>\<open>nan\<close>.
  Equality of values is structural here: two not-a-number values are the same value, whereas
  Python's \<^verbatim>\<open>==\<close> on floats answers False for them.
\<close>

datatype aunit = u_rad | u_deg | u_m | u_s

fun physical_type :: "aunit \<Rightarrow> string" where
  "physical_type u_rad = ''angle''"
| "physical_type u_deg = ''angle''"
| "physical_type u_m = ''length''"
| "physical_type u_s = ''time''"

datatype pyfloat = nan | Fl real

text \<open>
  A value as written in a declaration: \<^verbatim>\<open>None\<close>, an integer, a float, a string, a
  quantity (\<^verbatim>\<open>nan * u.rad\<close>), a list, a container instance (its class name and its
  attributes in field order) or a \<^verbatim>\<open>Map\<close>. \<^verbatim>\<open>Map\<close> is a \<^verbatim>\<open>defaultdict\<close>: it
  carries its factory and its items; the factory, a container class, is represented by
  the instance a call of the class builds.
\<close>

datatype pyval =
    PyNone
  | PyInt int
  | PyFloat pyfloat
  | PyStr string
  | Quantity pyfloat aunit
  | PyList "pyval list"
  | Instance string "(string \<times> pyval) list"
  | MapV pyval "(int \<times> pyval) list"

datatype field = Field (default_value: pyval) (description: string) (unit_of: "aunit option")

datatype pyclass = Class (cname: string) (cfields: "(string \<times> field) list")

text \<open>
  The metaclass of \<^verbatim>\<open>Container\<close> collects the \<^verbatim>\<open>Field\<close>s of a class body into the
  dictionary \<^verbatim>\<open>fields\<close>: first the fields of the base classes, then the class's own, each
  stored under its name (a later declaration of a name replaces the earlier one and keeps
  its place, as a Python dictionary does).
\<close>

definition container_class :: "string \<Rightarrow> pyclass list \<Rightarrow> (string \<times> field) list \<Rightarrow> pyclass" where
  "container_class name bases body =
     Class name (fold (\<lambda>(k, f). AList.update k f) (concat (map cfields bases) @ body) [])"

definition Container :: pyclass where
  "Container = Class ''Container'' []"

text \<open>
  \<^verbatim>\<open>cls()\<close> with no arguments sets every field to a copy of its default; as a value this
  is the class name with the defaults in field order.
\<close>

definition instantiate :: "pyclass \<Rightarrow> pyval" where
  "instantiate cls = Instance (cname cls) (map (\<lambda>(k, f). (k, default_value f)) (cfields cls))"

text \<open>\<^verbatim>\<open>Map(cls)\<close>: an empty mapping whose factory is the class.\<close>

definition Map_of_class :: "pyclass \<Rightarrow> pyval" where
  "Map_of_class cls = MapV (instantiate cls) []"

section \<open>The declarations of the module\<close>

definition LSTDriveContainer_body :: "(string \<times> field) list" where
  "LSTDriveContainer_body =
    [(''date'', Field (PyStr '' '') ''observation date'' None),
     (''time_stamp'', Field (PyInt (-1)) ''timestamp'' None),
     (''epoch'', Field (PyInt (-1)) ''Epoch'' None),
     (''time'', Field (PyInt (-1)) ''time'' None),
     (''azimuth_avg'', Field (Quantity nan u_rad) ''Azimuth'' (Some u_rad)),
     (''azimuth_min'', Field (Quantity nan u_rad) ''Azimuth min'' (Some u_rad)),
     (''azimuth_max'', Field (Quantity nan u_rad) ''Azimuth max'' (Some u_rad)),
     (''azimuth_rmse'', Field (Quantity nan u_rad) ''Azimuth root-mean-square error'' (Some u_rad)),
     (''altitude_avg'', Field (Quantity nan u_rad) ''Altitude'' (Some u_rad)),
     (''altitude_min'', Field (Quantity nan u_rad) ''Altitude min'' (Some u_rad)),
     (''altitude_max'', Field (Quantity nan u_rad) ''Altitude max'' (Some u_rad)),
     (''altitude_rmse'', Field (Quantity nan u_rad) ''Altitude root-mean-square error'' (Some u_rad))]"

definition LSTDriveContainer :: pyclass where
  "LSTDriveContainer = container_class ''LSTDriveContainer'' [Container] LSTDriveContainer_body"

definition LSTServiceContainer_body :: "(string \<times> field) list" where
  "LSTServiceContainer_body =
    [(''telescope_id'', Field (PyInt (-1)) ''telescope id'' None),
     (''cs_serial'', Field PyNone ''serial number of the camera server'' None),
     (''configuration_id'', Field PyNone ''id of the CameraConfiguration'' None),
     (''date'', Field PyNone ''NTP start of run date'' None),
     (''num_pixels'', Field (PyInt (-1)) ''number of pixels'' None),
     (''num_samples'', Field (PyInt (-1)) ''num samples'' None),
     (''pixel_ids'', Field (PyList []) ''id of the pixels in the waveform array'' None),
     (''data_model_version'', Field PyNone ''data model version'' None),
     (''idaq_version'', Field (PyInt 0) ''idaq version'' None),
     (''cdhs_version'', Field (PyInt 0) ''cdhs version'' None),
     (''algorithms'', Field PyNone ''algorithms'' None),
     (''pre_proc_algorithms'', Field PyNone ''pre processing algorithms'' None),
     (''module_ids'', Field (PyList []) ''module ids'' None),
     (''num_modules'', Field (PyInt (-1)) ''number of modules'' None)]"

definition LSTServiceContainer :: pyclass where
  "LSTServiceContainer =
     container_class ''LSTServiceContainer'' [Container] LSTServiceContainer_body"

definition LSTEventContainer_body :: "(string \<times> field) list" where
  "LSTEventContainer_body =
    [(''configuration_id'', Field PyNone ''id of the CameraConfiguration'' None),
     (''event_id'', Field PyNone ''local id of the event'' None),
     (''tel_event_id'', Field PyNone ''global id of the event'' None),
     (''pixel_status'', Field (PyList []) ''status of the pixels (n_pixels)'' None),
     (''ped_id'', Field PyNone ''tel_event_id of the event used for pedestal substraction'' None),
     (''module_status'', Field (PyList []) ''status of the modules (n_modules)'' None),
     (''extdevices_presence'', Field PyNone ''presence of data for external devices'' None),
     (''tib_event_counter'', Field PyNone ''TIB event counter'' None),
     (''tib_pps_counter'', Field PyNone ''TIB pps counter'' None),
     (''tib_tenMHz_counter'', Field PyNone ''TIB 10 MHz counter'' None),
     (''tib_stereo_pattern'', Field PyNone ''TIB stereo pattern'' None),
     (''tib_masked_trigger'', Field PyNone ''TIB trigger mask'' None),
     (''ucts_event_counter'', Field PyNone ''UCTS event counter'' None),
     (''ucts_pps_counter'', Field PyNone ''UCTS pps counter'' None),
     (''ucts_clock_counter'', Field PyNone ''UCTS clock counter'' None),
     (''ucts_timestamp'', Field PyNone ''UCTS timestamp'' None),
     (''ucts_camera_timestamp'', Field PyNone ''UCTS camera timestamp'' None),
     (''ucts_trigger_type'', Field PyNone ''UCTS trigger type'' None),
     (''ucts_white_rabbit_status'', Field PyNone ''UCTS whiteRabbit status'' None),
     (''swat_timestamp'', Field PyNone ''SWAT timestamp'' None),
     (''swat_counter1'', Field PyNone ''SWAT event counter 1'' None),
     (''swat_counter2'', Field PyNone ''SWAT event counter 2'' None),
     (''swat_event_type'', Field PyNone ''SWAT event type'' None),
     (''swat_camera_flag'', Field PyNone ''SWAT camera flag '' None),
     (''swat_camera_event_num'', Field PyNone ''SWAT camera event number'' None),
     (''swat_array_flag'', Field PyNone ''SWAT array negative flag'' None),
     (''swat_array_event_num'', Field PyNone ''SWAT array event number'' None),
     (''pps_counter'', Field (PyList []) ''Dragon pulse per second counter (n_modules)'' None),
     (''tenMHz_counter'', Field (PyList []) ''Dragon 10 MHz counter (n_modules)'' None),
     (''event_counter'', Field (PyList []) ''Dragon event counter (n_modules)'' None),
     (''trigger_counter'', Field (PyList []) ''Dragon trigger counter (n_modules)'' None),
     (''local_clock_counter'', Field (PyList []) ''Dragon local 133 MHz counter (n_modules)'' None),
     (''chips_flags'', Field (PyList []) ''chips flags'' None),
     (''first_capacitor_id'', Field (PyList []) ''first capacitor id'' None),
     (''drs_tag_status'', Field (PyList []) ''DRS tag status'' None),
     (''drs_tag'', Field (PyList []) ''DRS tag'' None)]"

definition LSTEventContainer :: pyclass where
  "LSTEventContainer = container_class ''LSTEventContainer'' [Container] LSTEventContainer_body"

definition LSTMonitoringContainer_body :: "(string \<times> field) list" where
  "LSTMonitoringContainer_body =
    [(''drive'', Field (instantiate LSTDriveContainer) ''container for LST drive reports'' None)]"

definition LSTMonitoringContainer :: pyclass where
  "LSTMonitoringContainer =
     container_class ''LSTMonitoringContainer'' [Container] LSTMonitoringContainer_body"

definition LSTCameraContainer_body :: "(string \<times> field) list" where
  "LSTCameraContainer_body =
    [(''evt'', Field (instantiate LSTEventContainer) ''LST specific event Information'' None),
     (''svc'', Field (instantiate LSTServiceContainer) ''LST specific camera_config Information'' None),
     (''mon'', Field (instantiate LSTMonitoringContainer) ''LST specific monitoring Information'' None)]"

definition LSTCameraContainer :: pyclass where
  "LSTCameraContainer =
     container_class ''LSTCameraContainer'' [Container] LSTCameraContainer_body"

definition LSTContainer_body :: "(string \<times> field) list" where
  "LSTContainer_body =
    [(''tels_with_data'', Field (PyList []) ''list of telescopes with data'' None),
     (''tel'', Field (Map_of_class LSTCameraContainer) ''map of tel_id to LSTTelContainer'' None)]"

definition LSTContainer :: pyclass where
  "LSTContainer = container_class ''LSTContainer'' [Container] LSTContainer_body"

text \<open>
  \<^verbatim>\<open>LSTDataContainer\<close> extends the host framework's \<^verbatim>\<open>DataContainer\<close>, and the default
  of its field \<^verbatim>\<open>mon\<close> is the host framework's \<^verbatim>\<open>MonitoringContainer()\<close>. Neither is
  declared in this module: the base class and that instance are parameters.
\<close>

definition LSTDataContainer_body :: "pyval \<Rightarrow> (string \<times> field) list" where
  "LSTDataContainer_body MonitoringContainer_inst =
    [(''lst'', Field (instantiate LSTContainer) ''LST specific Information'' None),
     (''mon'', Field MonitoringContainer_inst ''container for LST monitoring data (MON)'' None)]"

definition LSTDataContainer :: "pyclass \<Rightarrow> pyval \<Rightarrow> pyclass" where
  "LSTDataContainer DataContainer MonitoringContainer_inst =
     container_class ''LSTDataContainer'' [DataContainer]
       (LSTDataContainer_body MonitoringContainer_inst)"

text \<open>The container classes the module declares, in the order of the file.\<close>

definition module_containers :: "pyclass \<Rightarrow> pyval \<Rightarrow> pyclass list" where
  "module_containers DataContainer MonitoringContainer_inst =
    [LSTDriveContainer, LSTServiceContainer, LSTEventContainer, LSTMonitoringContainer,
     LSTCameraContainer, LSTContainer, LSTDataContainer DataContainer MonitoringContainer_inst]"

section \<open>The object store\<close>

text \<open>
  Lists, quantities, container instances and mappings are mutable Python objects: a
  variable or an attribute holds a reference to one, and two references to the same object
  see each other's updates. The store is the list of the objects allocated so far; an
  address is an index into it, and a new object goes at the end (objects are never freed).
  \<^verbatim>\<open>None\<close>, integers, floats and strings are immutable and are held directly.
\<close>

type_synonym addr = nat

datatype val = VNone | VInt int | VFloat pyfloat | VStr string | VRef addr

datatype obj =
    OQuantity pyfloat aunit
  | OList "val list"
  | OInstance string "(string \<times> val) list"
  | OMap pyval "(int \<times> val) list"

type_synonym heap = "obj list"

definition lookup :: "heap \<Rightarrow> addr \<Rightarrow> obj option" where
  "lookup h p = (if p < length h then Some (h ! p) else None)"

definition alloc_obj :: "obj \<Rightarrow> heap \<Rightarrow> val \<times> heap" where
  "alloc_obj ob h = (VRef (length h), h @ [ob])"

text \<open>
  \<^verbatim>\<open>copy.deepcopy\<close> of a declared default: every mutable object of the value is built
  anew in the store, the parts before the whole; immutable values are returned as they are.
  The factory of a \<^verbatim>\<open>Map\<close> is a class and is not copied.
\<close>

fun deepcopy :: "pyval \<Rightarrow> heap \<Rightarrow> val \<times> heap"
and deepcopy_list :: "pyval list \<Rightarrow> heap \<Rightarrow> val list \<times> heap" where
  "deepcopy PyNone h = (VNone, h)"
| "deepcopy (PyInt i) h = (VInt i, h)"
| "deepcopy (PyFloat x) h = (VFloat x, h)"
| "deepcopy (PyStr s) h = (VStr s, h)"
| "deepcopy (Quantity x u) h = alloc_obj (OQuantity x u) h"
| "deepcopy (PyList ts) h =
     (case deepcopy_list ts h of (vs, h1) \<Rightarrow> alloc_obj (OList vs) h1)"
| "deepcopy (Instance c attrs) h =
     (case deepcopy_list (map snd attrs) h of
        (vs, h1) \<Rightarrow> alloc_obj (OInstance c (zip (map fst attrs) vs)) h1)"
| "deepcopy (MapV f items) h =
     (case deepcopy_list (map snd items) h of
        (vs, h1) \<Rightarrow> alloc_obj (OMap f (zip (map fst items) vs)) h1)"
| "deepcopy_list [] h = ([], h)"
| "deepcopy_list (t # ts) h =
     (case deepcopy t h of (v, h1) \<Rightarrow>
        (case deepcopy_list ts h1 of (vs, h2) \<Rightarrow> (v # vs, h2)))"

text \<open>
  \<^verbatim>\<open>cls()\<close>: \<^verbatim>\<open>Container.__init__\<close> goes through the fields of the class in order and
  sets each attribute to a deep copy of the field's default.
\<close>

definition new :: "pyclass \<Rightarrow> heap \<Rightarrow> val \<times> heap" where
  "new cls h =
     (case deepcopy_list (map (\<lambda>(k, f). default_value f) (cfields cls)) h of
        (vs, h1) \<Rightarrow> alloc_obj (OInstance (cname cls) (zip (map fst (cfields cls)) vs)) h1)"

text \<open>
  \<open>stored h lo hi v t\<close>: in the store \<open>h\<close> the value \<open>v\<close> is a copy of the declared
  value \<open>t\<close>, and every object of the copy, at every depth, lies at an address from \<open>lo\<close>
  up to but not including \<open>hi\<close>.
\<close>

definition deref :: "heap \<Rightarrow> val \<Rightarrow> obj option" where
  "deref h v = (case v of VRef p \<Rightarrow> lookup h p | _ \<Rightarrow> None)"

definition addr_in :: "addr \<Rightarrow> addr \<Rightarrow> val \<Rightarrow> bool" where
  "addr_in lo hi v = (case v of VRef p \<Rightarrow> lo \<le> p \<and> p < hi | _ \<Rightarrow> False)"

fun stored :: "heap \<Rightarrow> addr \<Rightarrow> addr \<Rightarrow> val \<Rightarrow> pyval \<Rightarrow> bool"
and stored_list :: "heap \<Rightarrow> addr \<Rightarrow> addr \<Rightarrow> val list \<Rightarrow> pyval list \<Rightarrow> bool" where
  "stored h lo hi v PyNone = (v = VNone)"
| "stored h lo hi v (PyInt i) = (v = VInt i)"
| "stored h lo hi v (PyFloat x) = (v = VFloat x)"
| "stored h lo hi v (PyStr s) = (v = VStr s)"
| "stored h lo hi v (Quantity x u) =
     (addr_in lo hi v \<and> deref h v = Some (OQuantity x u))"
| "stored h lo hi v (PyList ts) =
     (addr_in lo hi v \<and>
      (case deref h v of Some (OList vs) \<Rightarrow> stored_list h lo hi vs ts | _ \<Rightarrow> False))"
| "stored h lo hi v (Instance c attrs) =
     (addr_in lo hi v \<and>
      (case deref h v of
         Some (OInstance c' as) \<Rightarrow>
           c' = c \<and> map fst as = map fst attrs \<and> stored_list h lo hi (map snd as) (map snd attrs)
       | _ \<Rightarrow> False))"
| "stored h lo hi v (MapV f items) =
     (addr_in lo hi v \<and>
      (case deref h v of
         Some (OMap f' es) \<Rightarrow>
           f' = f \<and> map fst es = map fst items \<and> stored_list h lo hi (map snd es) (map snd items)
       | _ \<Rightarrow> False))"
| "stored_list h lo hi [] [] = True"
| "stored_list h lo hi (v # vs) (t # ts) = (stored h lo hi v t \<and> stored_list h lo hi vs ts)"
| "stored_list h lo hi [] (t # ts) = False"
| "stored_list h lo hi (v # vs) [] = False"

section \<open>Operations of the host framework\<close>

text \<open>
  The module calls three things of the host framework: the class \<^verbatim>\<open>Container\<close>, whose
  \<^verbatim>\<open>__init__\<close> runs \<^verbatim>\<open>setattr(self, k, deepcopy(v.default))\<close> for every field and
  whose \<^verbatim>\<open>__slots__\<close> admit the declared field names only; \<^verbatim>\<open>Field\<close>; and
  \<^verbatim>\<open>Map\<close>, a \<^verbatim>\<open>defaultdict\<close>. Their code is outside the repository; the definitions
  of this section and \<open>deepcopy\<close>, \<open>new\<close> above are written from that behaviour. The
  bookkeeping attributes \<^verbatim>\<open>meta\<close> and \<^verbatim>\<open>prefix\<close> of an instance are not fields
  and are left out.
\<close>

datatype pyerror = AttributeError | TypeError

definition getattr :: "heap \<Rightarrow> val \<Rightarrow> string \<Rightarrow> pyerror + val" where
  "getattr h r name =
     (case deref h r of
        Some (OInstance c as) \<Rightarrow>
          (case map_of as name of Some v \<Rightarrow> Inr v | None \<Rightarrow> Inl AttributeError)
      | _ \<Rightarrow> Inl AttributeError)"

definition setattr :: "heap \<Rightarrow> val \<Rightarrow> string \<Rightarrow> val \<Rightarrow> pyerror + heap" where
  "setattr h r name v =
     (case r of
        VRef p \<Rightarrow>
          (case lookup h p of
             Some (OInstance c as) \<Rightarrow>
               if name \<in> set (map fst as)
               then Inr (h[p := OInstance c (AList.update name v as)])
               else Inl AttributeError
           | _ \<Rightarrow> Inl AttributeError)
      | _ \<Rightarrow> Inl AttributeError)"

text \<open>\<^verbatim>\<open>xs.append(v)\<close> on a list object.\<close>

definition list_append :: "heap \<Rightarrow> val \<Rightarrow> val \<Rightarrow> pyerror + heap" where
  "list_append h r v =
     (case r of
        VRef p \<Rightarrow>
          (case lookup h p of
             Some (OList vs) \<Rightarrow> Inr (h[p := OList (vs @ [v])])
           | _ \<Rightarrow> Inl AttributeError)
      | _ \<Rightarrow> Inl AttributeError)"

text \<open>
  \<^verbatim>\<open>m[k]\<close> on a \<^verbatim>\<open>Map\<close>: a key that is present gives its value; a missing key calls
  the factory, stores the new instance under the key and gives it back. \<^verbatim>\<open>m[k] = v\<close>
  stores \<open>v\<close> under \<open>k\<close>. A receiver that is not a \<^verbatim>\<open>Map\<close> is a \<open>TypeError\<close> here.
\<close>

definition Map_getitem :: "heap \<Rightarrow> val \<Rightarrow> int \<Rightarrow> pyerror + (val \<times> heap)" where
  "Map_getitem h m k =
     (case m of
        VRef p \<Rightarrow>
          (case lookup h p of
             Some (OMap f es) \<Rightarrow>
               (case map_of es k of
                  Some v \<Rightarrow> Inr (v, h)
                | None \<Rightarrow>
                    (case deepcopy f h of
                       (v, h1) \<Rightarrow> Inr (v, h1[p := OMap f (AList.update k v es)])))
           | _ \<Rightarrow> Inl TypeError)
      | _ \<Rightarrow> Inl TypeError)"

definition Map_setitem :: "heap \<Rightarrow> val \<Rightarrow> int \<Rightarrow> val \<Rightarrow> pyerror + heap" where
  "Map_setitem h m k v =
     (case m of
        VRef p \<Rightarrow>
          (case lookup h p of
             Some (OMap f es) \<Rightarrow> Inr (h[p := OMap f (AList.update k v es)])
           | _ \<Rightarrow> Inl TypeError)
      | _ \<Rightarrow> Inl TypeError)"

section \<open>The correspondence between the telescope list and the mapping\<close>

text \<open>
  The declarations enforce nothing between the two fields of \<^verbatim>\<open>LSTContainer\<close>. The
  property the specification asks of them: \<^verbatim>\<open>tels_with_data\<close> is a list, \<^verbatim>\<open>tel\<close> is a
  mapping, and every member of the list is an integer that is a key of the mapping.
  \<open>listed_in_tel h r t\<close> says this of a list \<open>t\<close> and the mapping of the container \<open>r\<close>.
\<close>

fun is_key :: "(int \<times> val) list \<Rightarrow> val \<Rightarrow> bool" where
  "is_key es (VInt k) = (k \<in> set (map fst es))"
| "is_key es _ = False"

definition listed_in_tel :: "heap \<Rightarrow> val \<Rightarrow> val \<Rightarrow> bool" where
  "listed_in_tel h r t =
     (case (deref h t, getattr h r ''tel'') of
        (Some (OList ids), Inr m) \<Rightarrow>
          (case deref h m of
             Some (OMap f es) \<Rightarrow> list_all (is_key es) ids
           | _ \<Rightarrow> False)
      | _ \<Rightarrow> False)"

definition tels_with_data_have_entries :: "heap \<Rightarrow> val \<Rightarrow> bool" where
  "tels_with_data_have_entries h r =
     (case getattr h r ''tels_with_data'' of
        Inr t \<Rightarrow> listed_in_tel h r t
      | Inl e \<Rightarrow> False)"

text \<open>
  What a caller does to an \<^verbatim>\<open>LSTContainer\<close> \<open>r\<close>: assign a field
  (\<^verbatim>\<open>r.k = v\<close>), insert into the mapping (\<^verbatim>\<open>r.tel[k] = v\<close>), or build a new value
  in the store (a list literal, a constructor call) to assign later. A run performs a list
  of such steps and stops at the first error.
\<close>

datatype step = SetField string val | MapInsert int val | Build pyval

fun apply_step :: "heap \<Rightarrow> val \<Rightarrow> step \<Rightarrow> pyerror + heap" where
  "apply_step h r (SetField k v) = setattr h r k v"
| "apply_step h r (MapInsert k v) =
     (case getattr h r ''tel'' of Inr m \<Rightarrow> Map_setitem h m k v | Inl e \<Rightarrow> Inl e)"
| "apply_step h r (Build t) = Inr (snd (deepcopy t h))"

fun run :: "heap \<Rightarrow> val \<Rightarrow> step list \<Rightarrow> pyerror + heap" where
  "run h r [] = Inr h"
| "run h r (s # ss) = (case apply_step h r s of Inl e \<Rightarrow> Inl e | Inr h' \<Rightarrow> run h' r ss)"

text \<open>
  A caller that keeps the correspondence assigns to \<^verbatim>\<open>tels_with_data\<close> only a list whose
  members are keys of the mapping at that moment, and does not replace the mapping.
  \<open>run_allowed\<close> says that every step of a run is of this kind in the state it is taken in.
\<close>

fun allowed :: "heap \<Rightarrow> val \<Rightarrow> step \<Rightarrow> bool" where
  "allowed h r (SetField k v) = (k = ''tels_with_data'' \<and> listed_in_tel h r v)"
| "allowed h r (MapInsert k v) = True"
| "allowed h r (Build t) = True"

fun run_allowed :: "heap \<Rightarrow> val \<Rightarrow> step list \<Rightarrow> bool" where
  "run_allowed h r [] = True"
| "run_allowed h r (s # ss) =
     (allowed h r s \<and>
      (case apply_step h r s of Inr h' \<Rightarrow> run_allowed h' r ss | Inl e \<Rightarrow> True))"

text \<open>
  The shape such runs keep: the container's two attributes refer to a list and to a mapping,
  and the members of the list are keys of the mapping.
\<close>

definition tel_layout :: "heap \<Rightarrow> val \<Rightarrow> bool" where
  "tel_layout h r =
     (\<exists>a c p q ids f es.
        r = VRef a \<and>
        lookup h a = Some (OInstance c [(''tels_with_data'', VRef p), (''tel'', VRef q)]) \<and>
        lookup h p = Some (OList ids) \<and> lookup h q = Some (OMap f es) \<and>
        list_all (is_key es) ids)"

section \<open>Kinds of default values\<close>

text \<open>
  The specification names four ``not yet populated'' defaults: \<open>-1\<close>, an empty sequence,
  a textual placeholder, and not-a-number with a unit. \<open>spec_sentinel\<close> follows these
  words. \<open>module_defaults\<close> lists the defaults that the declarations of the module do
  write.
\<close>

fun spec_sentinel :: "pyval \<Rightarrow> bool" where
  "spec_sentinel (PyInt i) = (i = - 1)"
| "spec_sentinel (PyList ts) = (ts = [])"
| "spec_sentinel (PyStr s) = True"
| "spec_sentinel (Quantity x u) = (x = nan)"
| "spec_sentinel _ = False"

definition module_defaults :: "pyval \<Rightarrow> pyval list" where
  "module_defaults MonitoringContainer_inst =
     [PyInt (- 1), PyInt 0, PyNone, PyList [], PyStr '' '', Quantity nan u_rad,
      instantiate LSTDriveContainer, instantiate LSTEventContainer,
      instantiate LSTServiceContainer, instantiate LSTMonitoringContainer,
      instantiate LSTContainer, MonitoringContainer_inst, Map_of_class LSTCameraContainer]"

section \<open>Field tables\<close>

lemma fold_update_distinct:
  "distinct (map fst (acc @ body)) \<Longrightarrow>
   fold (\<lambda>(k, f). AList.update k f) body acc = acc @ body"
proof (induction body arbitrary: acc)
  case Nil
  then show ?case by simp
next
  case (Cons kf body)
  obtain k f where kf: "kf = (k, f)" by (cases kf)
  from Cons.prems kf have "k \<notin> fst ` set acc" by auto
  then have upd: "AList.update k f acc = acc @ [(k, f)]"
    by (induction acc) auto
  from Cons.prems have "distinct (map fst ((acc @ [kf]) @ body))" by simp
  from Cons.IH [OF this] show ?case by (simp add: kf upd)
qed

lemma container_class_fields:
  "distinct (map fst body) \<Longrightarrow> cfields (container_class name [Container] body) = body"
  using fold_update_distinct [of "[]" body] by (simp add: container_class_def Container_def)

lemma LSTDriveContainer_fields: "cfields LSTDriveContainer = LSTDriveContainer_body"
  unfolding LSTDriveContainer_def
  by (rule container_class_fields) (simp add: LSTDriveContainer_body_def)

lemma LSTServiceContainer_fields: "cfields LSTServiceContainer = LSTServiceContainer_body"
  unfolding LSTServiceContainer_def
  by (rule container_class_fields) (simp add: LSTServiceContainer_body_def)

lemma LSTEventContainer_fields: "cfields LSTEventContainer = LSTEventContainer_body"
  unfolding LSTEventContainer_def
  by (rule container_class_fields) (simp add: LSTEventContainer_body_def)

lemma LSTMonitoringContainer_fields:
  "cfields LSTMonitoringContainer = LSTMonitoringContainer_body"
  unfolding LSTMonitoringContainer_def
  by (rule container_class_fields) (simp add: LSTMonitoringContainer_body_def)

lemma LSTCameraContainer_fields: "cfields LSTCameraContainer = LSTCameraContainer_body"
  unfolding LSTCameraContainer_def
  by (rule container_class_fields) (simp add: LSTCameraContainer_body_def)

lemma LSTContainer_fields: "cfields LSTContainer = LSTContainer_body"
  unfolding LSTContainer_def
  by (rule container_class_fields) (simp add: LSTContainer_body_def)

section \<open>Copies live in fresh cells\<close>

lemma deepcopy_extends:
  "deepcopy t h = (v, h') \<Longrightarrow> \<exists>ext. h' = h @ ext"
  "deepcopy_list ts h = (vs, h') \<Longrightarrow> \<exists>ext. h' = h @ ext"
proof (induction t h and ts h arbitrary: v h' and vs h' rule: deepcopy_deepcopy_list.induct)
  case (10 t ts h)
  obtain v1 h1 where a: "deepcopy t h = (v1, h1)" by (cases "deepcopy t h")
  obtain vs2 h2 where b: "deepcopy_list ts h1 = (vs2, h2)" by (cases "deepcopy_list ts h1")
  from "10.IH"(1) [OF a] obtain e1 where e1: "h1 = h @ e1" by blast
  from "10.IH"(2) [OF a [symmetric] b] obtain e2 where e2: "h2 = h1 @ e2" by blast
  from "10.prems" a b have "h' = h2" by simp
  with e1 e2 show ?case by simp
qed (auto simp: alloc_obj_def split: prod.splits)

lemma deepcopy_list_length:
  "deepcopy_list ts h = (vs, h') \<Longrightarrow> length vs = length ts"
  by (induction ts arbitrary: h vs h') (auto split: prod.splits)


lemma deref_frame:
  "addr_in lo hi v \<Longrightarrow> (\<forall>p. lo \<le> p \<and> p < hi \<longrightarrow> lookup h' p = lookup h p) \<Longrightarrow>
   deref h' v = deref h v"
  by (auto simp: addr_in_def deref_def split: val.splits)

lemma addr_in_mono: "addr_in lo hi v \<Longrightarrow> lo' \<le> lo \<Longrightarrow> hi \<le> hi' \<Longrightarrow> addr_in lo' hi' v"
  by (auto simp: addr_in_def split: val.splits)

lemma stored_frame:
  "stored h lo hi v t \<Longrightarrow> lo' \<le> lo \<Longrightarrow> hi \<le> hi' \<Longrightarrow>
   (\<forall>p. lo \<le> p \<and> p < hi \<longrightarrow> lookup h' p = lookup h p) \<Longrightarrow> stored h' lo' hi' v t"
  "stored_list h lo hi vs ts \<Longrightarrow> lo' \<le> lo \<Longrightarrow> hi \<le> hi' \<Longrightarrow>
   (\<forall>p. lo \<le> p \<and> p < hi \<longrightarrow> lookup h' p = lookup h p) \<Longrightarrow> stored_list h' lo' hi' vs ts"
proof (induction h lo hi v t and h lo hi vs ts rule: stored_stored_list.induct)
  case (5 h lo hi v x u)
  then show ?case using deref_frame [of lo hi v h' h] addr_in_mono [of lo hi v lo' hi'] by simp
next
  case (6 h lo hi v ts)
  then show ?case using deref_frame [of lo hi v h' h] addr_in_mono [of lo hi v lo' hi']
    by (auto split: option.splits obj.splits)
next
  case (7 h lo hi v c attrs)
  then show ?case using deref_frame [of lo hi v h' h] addr_in_mono [of lo hi v lo' hi']
    by (auto split: option.splits obj.splits)
next
  case (8 h lo hi v f items)
  then show ?case using deref_frame [of lo hi v h' h] addr_in_mono [of lo hi v lo' hi']
    by (auto split: option.splits obj.splits)
qed simp_all

lemma lookup_append_old: "p < length h \<Longrightarrow> lookup (h @ ext) p = lookup h p"
  by (simp add: lookup_def nth_append)

lemma lookup_append_new: "lookup (h @ [ob]) (length h) = Some ob"
  by (simp add: lookup_def)

lemma stored_alloc_parent:
  assumes ch: "stored_list h1 lo (length h1) vs ts" and lo: "lo \<le> length h1"
  shows "stored_list (h1 @ [ob]) lo (Suc (length h1)) vs ts"
  using stored_frame(2) [OF ch, of lo "Suc (length h1)" "h1 @ [ob]"] lo
  by (simp add: lookup_append_old)

lemma deepcopy_stored:
  "deepcopy t h = (v, h') \<Longrightarrow> stored h' (length h) (length h') v t"
  "deepcopy_list ts h = (vs, h') \<Longrightarrow> stored_list h' (length h) (length h') vs ts"
proof (induction t h and ts h arbitrary: v h' and vs h' rule: deepcopy_deepcopy_list.induct)
  case (5 x u h)
  then show ?case by (auto simp: alloc_obj_def addr_in_def deref_def lookup_def)
next
  case (6 ts h)
  obtain vs h1 where a: "deepcopy_list ts h = (vs, h1)" by (cases "deepcopy_list ts h")
  from deepcopy_extends(2) [OF a] have le: "length h \<le> length h1" by auto
  from "6.IH" [OF a] have "stored_list h1 (length h) (length h1) vs ts" .
  from stored_alloc_parent [OF this le] "6.prems" a le show ?case
    by (auto simp: alloc_obj_def addr_in_def deref_def lookup_append_new)
next
  case (7 c attrs h)
  obtain vs h1 where a: "deepcopy_list (map snd attrs) h = (vs, h1)"
    by (cases "deepcopy_list (map snd attrs) h")
  from deepcopy_extends(2) [OF a] have le: "length h \<le> length h1" by auto
  from deepcopy_list_length [OF a] have len: "length vs = length attrs" by simp
  from "7.IH" [OF a] have "stored_list h1 (length h) (length h1) vs (map snd attrs)" .
  from stored_alloc_parent [OF this le] "7.prems" a le len show ?case
    by (auto simp: alloc_obj_def addr_in_def deref_def lookup_append_new)
next
  case (8 f items h)
  obtain vs h1 where a: "deepcopy_list (map snd items) h = (vs, h1)"
    by (cases "deepcopy_list (map snd items) h")
  from deepcopy_extends(2) [OF a] have le: "length h \<le> length h1" by auto
  from deepcopy_list_length [OF a] have len: "length vs = length items" by simp
  from "8.IH" [OF a] have "stored_list h1 (length h) (length h1) vs (map snd items)" .
  from stored_alloc_parent [OF this le] "8.prems" a le len show ?case
    by (auto simp: alloc_obj_def addr_in_def deref_def lookup_append_new)
next
  case (10 t ts h)
  obtain v1 h1 where a: "deepcopy t h = (v1, h1)" by (cases "deepcopy t h")
  obtain vs2 h2 where b: "deepcopy_list ts h1 = (vs2, h2)" by (cases "deepcopy_list ts h1")
  from deepcopy_extends(1) [OF a] have le1: "length h \<le> length h1" by auto
  from deepcopy_extends(2) [OF b] obtain e2 where e2: "h2 = h1 @ e2" by blast
  from "10.IH"(1) [OF a] have s1: "stored h1 (length h) (length h1) v1 t" .
  from "10.IH"(2) [OF a [symmetric] b] have s2: "stored_list h2 (length h1) (length h2) vs2 ts" .
  have "stored h2 (length h) (length h2) v1 t"
    using stored_frame(1) [OF s1, of "length h" "length h2" h2] e2
    by (simp add: lookup_append_old)
  moreover have "stored_list h2 (length h) (length h2) vs2 ts"
    using stored_frame(2) [OF s2, of "length h" "length h2" h2] le1 by simp
  ultimately show ?case using "10.prems" a b by auto
qed simp_all


section \<open>Fresh instances\<close>

lemma new_deepcopy: "new cls h = deepcopy (instantiate cls) h"
  by (simp add: new_def instantiate_def comp_def case_prod_unfold)

lemma container_class_distinct:
  "distinct (map fst (cfields (container_class name bases body)))"
proof -
  have *: "distinct (map fst acc) \<Longrightarrow>
        distinct (map fst (fold (\<lambda>(k, f). AList.update k f) xs acc))"
    for xs and acc :: "(string \<times> field) list"
    by (induction xs arbitrary: acc) (auto simp: distinct_update)
  show ?thesis unfolding container_class_def pyclass.sel by (rule *) simp
qed

lemma module_containers_distinct:
  "cls \<in> set (module_containers DataContainer MonitoringContainer_inst) \<Longrightarrow>
   distinct (map fst (cfields cls))"
  by (auto simp: module_containers_def LSTDriveContainer_def LSTServiceContainer_def
      LSTEventContainer_def LSTMonitoringContainer_def LSTCameraContainer_def
      LSTContainer_def LSTDataContainer_def container_class_distinct)

lemma stored_list_length: "stored_list h lo hi vs ts \<Longrightarrow> length vs = length ts"
  by (induction vs arbitrary: ts) (case_tac ts; simp)+

lemma stored_list_nth:
  "stored_list h lo hi vs ts \<Longrightarrow> i < length ts \<Longrightarrow> stored h lo hi (vs ! i) (ts ! i)"
proof (induction vs arbitrary: ts i)
  case Nil
  then show ?case by (cases ts) simp_all
next
  case (Cons v vs)
  then show ?case by (cases ts; cases i) simp_all
qed

lemma new_shape:
  assumes "new cls h0 = (r, h)"
  shows "\<exists>vs. length vs = length (cfields cls) \<and> addr_in (length h0) (length h) r \<and>
           deref h r = Some (OInstance (cname cls) (zip (map fst (cfields cls)) vs)) \<and>
           stored_list h (length h0) (length h) vs (map (\<lambda>(k, f). default_value f) (cfields cls))"
proof -
  from assms have "stored h (length h0) (length h) r (instantiate cls)"
    using deepcopy_stored(1) [of "instantiate cls" h0 r h] by (simp add: new_deepcopy)
  then obtain c' as where r: "addr_in (length h0) (length h) r"
    and d: "deref h r = Some (OInstance c' as)"
    and c: "c' = cname cls" and n: "map fst as = map fst (cfields cls)"
    and s: "stored_list h (length h0) (length h) (map snd as)
              (map (\<lambda>(k, f). default_value f) (cfields cls))"
    by (auto simp: instantiate_def comp_def case_prod_unfold split: option.splits obj.splits)
  have "as = zip (map fst (cfields cls)) (map snd as)"
    using n by (metis zip_map_fst_snd)
  moreover from n have "length (map snd as) = length (cfields cls)"
    by (metis length_map)
  ultimately show ?thesis using r d c s by metis
qed

lemma container_class_name [simp]: "cname (container_class name bases body) = name"
  by (simp add: container_class_def)

lemma module_names [simp]:
  "cname LSTDriveContainer = ''LSTDriveContainer''"
  "cname LSTServiceContainer = ''LSTServiceContainer''"
  "cname LSTEventContainer = ''LSTEventContainer''"
  "cname LSTMonitoringContainer = ''LSTMonitoringContainer''"
  "cname LSTCameraContainer = ''LSTCameraContainer''"
  "cname LSTContainer = ''LSTContainer''"
  by (simp_all add: LSTDriveContainer_def LSTServiceContainer_def LSTEventContainer_def
      LSTMonitoringContainer_def LSTCameraContainer_def LSTContainer_def)


lemma fresh_field:
  assumes d: "distinct (map fst (cfields cls))" and n: "new cls h0 = (r, h)"
    and m: "(k, f) \<in> set (cfields cls)"
  shows "\<exists>v. getattr h r k = Inr v \<and> stored h (length h0) (length h) v (default_value f)"
proof -
  let ?ks = "map fst (cfields cls)"
  let ?ds = "map (\<lambda>(k, f). default_value f) (cfields cls)"
  from new_shape [OF n] obtain vs where len: "length vs = length (cfields cls)"
    and dr: "deref h r = Some (OInstance (cname cls) (zip ?ks vs))"
    and st: "stored_list h (length h0) (length h) vs ?ds"
    by blast
  from m obtain i where i: "i < length (cfields cls)" and at: "cfields cls ! i = (k, f)"
    by (auto simp: in_set_conv_nth)
  from i at have k: "?ks ! i = k" and f: "?ds ! i = default_value f" by simp_all
  have "map_of (zip ?ks vs) (?ks ! i) = Some (vs ! i)"
    using map_of_zip_nth [of ?ks vs i] d len i by simp
  with dr k have "getattr h r k = Inr (vs ! i)" by (simp add: getattr_def)
  moreover have "stored h (length h0) (length h) (vs ! i) (?ds ! i)"
    using stored_list_nth [OF st, of i] i by simp
  ultimately show ?thesis using f by simp
qed

lemma stored_empty_list:
  "stored h lo hi v (PyList []) \<Longrightarrow> \<exists>p. v = VRef p \<and> lookup h p = Some (OList [])"
  by (cases v) (auto simp: addr_in_def deref_def split: option.splits obj.splits list.splits
      elim: stored_list.elims)

lemma new_LSTServiceContainer:
  "new LSTServiceContainer h0 =
     (VRef (length h0 + 2),
      h0 @ [OList [], OList [],
        OInstance ''LSTServiceContainer''
          [(''telescope_id'', VInt (- 1)), (''cs_serial'', VNone), (''configuration_id'', VNone),
           (''date'', VNone), (''num_pixels'', VInt (- 1)), (''num_samples'', VInt (- 1)),
           (''pixel_ids'', VRef (length h0)), (''data_model_version'', VNone),
           (''idaq_version'', VInt 0), (''cdhs_version'', VInt 0), (''algorithms'', VNone),
           (''pre_proc_algorithms'', VNone), (''module_ids'', VRef (length h0 + 1)),
           (''num_modules'', VInt (- 1))]])"
  by (simp add: new_def LSTServiceContainer_fields LSTServiceContainer_body_def alloc_obj_def)

lemma new_LSTContainer:
  "new LSTContainer h0 =
     (VRef (length h0 + 2),
      h0 @ [OList [], OMap (instantiate LSTCameraContainer) [],
        OInstance ''LSTContainer''
          [(''tels_with_data'', VRef (length h0)), (''tel'', VRef (length h0 + 1))]])"
  by (simp add: new_def LSTContainer_fields LSTContainer_body_def alloc_obj_def Map_of_class_def)

lemma Map_getitem_missing:
  assumes l: "lookup h q = Some (OMap f es)" and k: "map_of es k = None"
  shows "\<exists>c h'. Map_getitem h (VRef q) k = Inr (c, h') \<and>
           stored h' (length h) (length h') c f \<and>
           lookup h' q = Some (OMap f (es @ [(k, c)])) \<and>
           Map_getitem h' (VRef q) k = Inr (c, h')"
proof -
  obtain c h1 where d: "deepcopy f h = (c, h1)" by (cases "deepcopy f h")
  let ?h' = "h1[q := OMap f (AList.update k c es)]"
  from l have q: "q < length h" by (simp add: lookup_def split: if_splits)
  from deepcopy_extends(1) [OF d] obtain ext where e: "h1 = h @ ext" by blast
  from q e have q1: "q < length h1" by simp
  from k have "k \<notin> fst ` set es" by (simp add: map_of_eq_None_iff)
  then have upd: "AList.update k c es = es @ [(k, c)]" by (induction es) auto
  have g: "Map_getitem h (VRef q) k = Inr (c, ?h')"
    using l k d by (simp add: Map_getitem_def)
  have s: "stored ?h' (length h) (length ?h') c f"
    using stored_frame(1) [OF deepcopy_stored(1) [OF d], of "length h" "length ?h'" ?h'] q
    by (simp add: lookup_def)
  have l': "lookup ?h' q = Some (OMap f (es @ [(k, c)]))"
    using q1 by (simp add: lookup_def upd)
  have "map_of (es @ [(k, c)]) k = Some c" using k by (simp add: map_add_def)
  with l' have g': "Map_getitem ?h' (VRef q) k = Inr (c, ?h')"
    by (simp add: Map_getitem_def)
  from g s l' g' show ?thesis by blast
qed

lemma new_LSTMonitoringContainer:
  "new LSTMonitoringContainer h0 =
     (VRef (length h0 + 9),
      h0 @ [OQuantity nan u_rad, OQuantity nan u_rad, OQuantity nan u_rad, OQuantity nan u_rad,
        OQuantity nan u_rad, OQuantity nan u_rad, OQuantity nan u_rad, OQuantity nan u_rad,
        OInstance ''LSTDriveContainer''
          [(''date'', VStr '' ''), (''time_stamp'', VInt (- 1)), (''epoch'', VInt (- 1)),
           (''time'', VInt (- 1)),
           (''azimuth_avg'', VRef (length h0)), (''azimuth_min'', VRef (length h0 + 1)),
           (''azimuth_max'', VRef (length h0 + 2)), (''azimuth_rmse'', VRef (length h0 + 3)),
           (''altitude_avg'', VRef (length h0 + 4)), (''altitude_min'', VRef (length h0 + 5)),
           (''altitude_max'', VRef (length h0 + 6)), (''altitude_rmse'', VRef (length h0 + 7))],
        OInstance ''LSTMonitoringContainer'' [(''drive'', VRef (length h0 + 8))]])"
  by (simp add: new_def LSTMonitoringContainer_fields LSTMonitoringContainer_body_def
      instantiate_def LSTDriveContainer_fields LSTDriveContainer_body_def alloc_obj_def)

lemma map_of_update_same: "map_of (AList.update k v al) k = Some v"
  by (simp add: update_conv')

lemma map_of_update_other: "k' \<noteq> k \<Longrightarrow> map_of (AList.update k v al) k' = map_of al k'"
  by (simp add: update_conv')

lemma fold_update_subset:
  "x \<in> set (fold (\<lambda>(k, f). AList.update k f) xs acc) \<Longrightarrow> x \<in> set xs \<or> x \<in> set acc"
proof (induction xs arbitrary: acc)
  case Nil
  then show ?case by simp
next
  case (Cons kf xs)
  obtain k f where kf: "kf = (k, f)" by (cases kf)
  have "set (AList.update k f acc) \<subseteq> insert (k, f) (set acc)"
    by (induction acc) auto
  with Cons.IH [of "AList.update k f acc"] Cons.prems kf show ?case by auto
qed

section \<open>Runs that keep the correspondence\<close>

lemma lookup_update: "lookup (h[p := ob]) q = (if q = p \<and> p < length h then Some ob else lookup h q)"
  by (simp add: lookup_def)

lemma lookup_Some_less: "lookup h p = Some ob \<Longrightarrow> p < length h"
  by (simp add: lookup_def split: if_splits)

lemma tel_layout_inv: "tel_layout h r \<Longrightarrow> tels_with_data_have_entries h r"
  by (auto simp: tel_layout_def tels_with_data_have_entries_def listed_in_tel_def getattr_def deref_def)

lemma tel_layout_new: "new LSTContainer h0 = (r, h) \<Longrightarrow> tel_layout h r"
  unfolding tel_layout_def
  by (rule exI [of _ "length h0 + 2"], rule exI [of _ "''LSTContainer''"],
      rule exI [of _ "length h0"], rule exI [of _ "length h0 + 1"])
     (auto simp: new_LSTContainer lookup_def nth_append)

lemma tel_layout_step:
  assumes j: "tel_layout h r" and al: "allowed h r s"
  shows "\<exists>h'. apply_step h r s = Inr h' \<and> tel_layout h' r"
proof -
  from j obtain a c p q ids f es where r: "r = VRef a"
    and la: "lookup h a = Some (OInstance c [(''tels_with_data'', VRef p), (''tel'', VRef q)])"
    and lp: "lookup h p = Some (OList ids)" and lq: "lookup h q = Some (OMap f es)"
    and all: "list_all (is_key es) ids"
    unfolding tel_layout_def by blast
  have g: "getattr h r ''tel'' = Inr (VRef q)"
    using la by (simp add: getattr_def deref_def r)
  show ?thesis
  proof (cases s)
    case (SetField k v)
    with al have k: "k = ''tels_with_data''" and li: "listed_in_tel h r v" by simp_all
    from li g lq obtain p' ids' where v: "v = VRef p'" and lp': "lookup h p' = Some (OList ids')"
      and all': "list_all (is_key es) ids'"
      by (cases v) (auto simp: listed_in_tel_def deref_def split: option.splits obj.splits)
    let ?h' = "h[a := OInstance c [(''tels_with_data'', VRef p'), (''tel'', VRef q)]]"
    have ap: "apply_step h r s = Inr ?h'"
      using la by (simp add: SetField k v r setattr_def)
    from la lp' have "a \<noteq> p'" by auto
    moreover from la lq have "a \<noteq> q" by auto
    ultimately have "tel_layout ?h' r"
      unfolding tel_layout_def using lookup_Some_less [OF la] lp' lq all' r
      by (auto simp: lookup_update)
    with ap show ?thesis by blast
  next
    case (MapInsert k v)
    let ?h' = "h[q := OMap f (AList.update k v es)]"
    have ap: "apply_step h r s = Inr ?h'"
      using g lq by (simp add: MapInsert Map_setitem_def)
    from la lq have aq: "a \<noteq> q" by auto
    from lp lq have pq: "p \<noteq> q" by auto
    have "is_key (AList.update k v es) x" if "is_key es x" for x
      using that by (cases x) (simp_all add: dom_update)
    with all have "list_all (is_key (AList.update k v es)) ids"
      by (auto simp: list_all_iff)
    with aq pq la lp lookup_Some_less [OF lq] r have "tel_layout ?h' r"
      unfolding tel_layout_def by (auto simp: lookup_update)
    with ap show ?thesis by blast
  next
    case (Build t)
    obtain v h' where d: "deepcopy t h = (v, h')" by (cases "deepcopy t h")
    from deepcopy_extends(1) [OF d] obtain ext where e: "h' = h @ ext" by blast
    have "lookup h' x = lookup h x" if "lookup h x = Some ob" for x ob
      using lookup_Some_less [OF that] e by (simp add: lookup_append_old)
    with la lp lq all r have "tel_layout h' r"
      unfolding tel_layout_def by metis
    with d show ?thesis by (simp add: Build)
  qed
qed

lemma tel_layout_run:
  "tel_layout h r \<Longrightarrow> run_allowed h r ss \<Longrightarrow> \<exists>h'. run h r ss = Inr h' \<and> tel_layout h' r"
proof (induction ss arbitrary: h)
  case Nil
  then show ?case by simp
next
  case (Cons s ss)
  from Cons.prems have al: "allowed h r s" by simp
  from tel_layout_step [OF Cons.prems(1) al] obtain h1 where
    ap: "apply_step h r s = Inr h1" and j1: "tel_layout h1 r" by blast
  from Cons.prems(2) ap have "run_allowed h1 r ss" by simp
  from Cons.IH [OF j1 this] ap show ?case by simp
qed

section \<open>Updates outside the cells of an instance\<close>

lemma stored_update_outside:
  assumes "stored h lo hi v t" and "p < lo \<or> hi \<le> p"
  shows "stored (h[p := ob]) lo hi v t"
  using stored_frame(1) [OF assms(1), of lo hi "h[p := ob]"] assms(2)
  by (auto simp: lookup_update)

lemma mutation_one_cell:
  assumes "setattr h x k v = Inr h' \<or> list_append h x v = Inr h' \<or> Map_setitem h x i v = Inr h'"
  shows "\<exists>p ob. x = VRef p \<and> h' = h[p := ob]"
  using assms
  by (cases x)
     (auto simp: setattr_def list_append_def Map_setitem_def
           split: option.splits obj.splits if_splits)

lemma new_grows: "new cls h0 = (r, h) \<Longrightarrow> length h0 < length h"
  by (auto simp: new_def alloc_obj_def split: prod.splits dest!: deepcopy_extends(2))

section \<open>Claims\<close>

text \<open>
  C1. For every container class the module declares, an instance built with no arguments
  holds, under every field name, a value that is a copy of the declared default of that
  field, stored in cells allocated by the construction. In particular a fresh
  \<^verbatim>\<open>LSTServiceContainer\<close> has \<^verbatim>\<open>telescope_id\<close> equal to \<open>-1\<close> and
  \<^verbatim>\<open>pixel_ids\<close> an empty list.
\<close>

theorem fresh_container_defaults:
  assumes "cls \<in> set (module_containers DataContainer MonitoringContainer_inst)"
    and "new cls h0 = (r, h)"
  shows "(\<forall>(k, f) \<in> set (cfields cls).
            \<exists>v. getattr h r k = Inr v \<and> stored h (length h0) (length h) v (default_value f)) \<and>
         (cls = LSTServiceContainer \<longrightarrow>
            getattr h r ''telescope_id'' = Inr (VInt (- 1)) \<and>
            (\<exists>p. getattr h r ''pixel_ids'' = Inr (VRef p) \<and> lookup h p = Some (OList [])))"
proof -
  have all: "\<exists>v. getattr h r k = Inr v \<and> stored h (length h0) (length h) v (default_value f)"
    if "(k, f) \<in> set (cfields cls)" for k f
    using fresh_field [OF module_containers_distinct [OF assms(1)] assms(2) that] .
  have svc: "getattr h r ''telescope_id'' = Inr (VInt (- 1)) \<and>
      (\<exists>p. getattr h r ''pixel_ids'' = Inr (VRef p) \<and> lookup h p = Some (OList []))"
    if c: "cls = LSTServiceContainer"
  proof -
    have "(''telescope_id'', Field (PyInt (- 1)) ''telescope id'' None) \<in> set (cfields cls)"
      by (simp add: c LSTServiceContainer_fields LSTServiceContainer_body_def)
    from all [OF this] have t: "getattr h r ''telescope_id'' = Inr (VInt (- 1))" by auto
    have "(''pixel_ids'', Field (PyList []) ''id of the pixels in the waveform array'' None)
            \<in> set (cfields cls)"
      by (simp add: c LSTServiceContainer_fields LSTServiceContainer_body_def)
    from all [OF this] obtain v where g: "getattr h r ''pixel_ids'' = Inr v"
      and s: "stored h (length h0) (length h) v (PyList [])" by auto
    from stored_empty_list [OF s] g t show ?thesis by auto
  qed
  from all svc show ?thesis by blast
qed

theorem fresh_container_defaults_witness:
  "LSTServiceContainer \<in> set (module_containers Container PyNone) \<and>
   fst (new LSTServiceContainer []) = VRef 2 \<and>
   getattr (snd (new LSTServiceContainer [])) (VRef 2) ''telescope_id'' = Inr (VInt (- 1)) \<and>
   (\<exists>p. getattr (snd (new LSTServiceContainer [])) (VRef 2) ''pixel_ids'' = Inr (VRef p) \<and>
        lookup (snd (new LSTServiceContainer [])) p = Some (OList []))"
proof -
  have m: "LSTServiceContainer \<in> set (module_containers Container PyNone)"
    by (simp add: module_containers_def)
  have f: "fst (new LSTServiceContainer []) = VRef 2"
    by (simp add: new_LSTServiceContainer)
  then have n: "new LSTServiceContainer [] = (VRef 2, snd (new LSTServiceContainer []))"
    by (metis prod.collapse)
  from fresh_container_defaults [OF m n] m f show ?thesis by blast
qed

text \<open>
  C2, as stated, fails: the default of \<^verbatim>\<open>cs_serial\<close> in \<^verbatim>\<open>LSTServiceContainer\<close> is
  \<^verbatim>\<open>None\<close>, which is none of the four sentinels.
\<close>

theorem sentinel_defaults_counterexample:
  "map_of (cfields LSTServiceContainer) ''cs_serial'' =
     Some (Field PyNone ''serial number of the camera server'' None) \<and>
   \<not> spec_sentinel (default_value (Field PyNone ''serial number of the camera server'' None))"
  by (simp add: LSTServiceContainer_fields LSTServiceContainer_body_def)

text \<open>
  C2, amended. Every field of every container class of the module has as its default one of:
  \<open>-1\<close>, \<open>0\<close>, \<^verbatim>\<open>None\<close>, an empty list, the one-blank string, not-a-number in radian, a
  default instance of a container (\<^verbatim>\<open>LSTDriveContainer\<close>, \<^verbatim>\<open>LSTEventContainer\<close>,
  \<^verbatim>\<open>LSTServiceContainer\<close>, \<^verbatim>\<open>LSTMonitoringContainer\<close>, \<^verbatim>\<open>LSTContainer\<close> or the host
  framework's \<^verbatim>\<open>MonitoringContainer\<close>), or an empty \<^verbatim>\<open>Map\<close> of
  \<^verbatim>\<open>LSTCameraContainer\<close>; the only other fields are those \<^verbatim>\<open>LSTDataContainer\<close> inherits
  from the host framework's \<^verbatim>\<open>DataContainer\<close>.
\<close>

theorem declared_defaults_kinds:
  assumes c: "cls \<in> set (module_containers DataContainer MonitoringContainer_inst)"
    and m: "(k, f) \<in> set (cfields cls)"
  shows "default_value f \<in> set (module_defaults MonitoringContainer_inst) \<or>
         (cls = LSTDataContainer DataContainer MonitoringContainer_inst \<and>
          (k, f) \<in> set (cfields DataContainer))"
proof -
  let ?D = "set (module_defaults MonitoringContainer_inst)"
  have body: "default_value f \<in> ?D"
    if "(k, f) \<in> set b" and "\<forall>x \<in> set b. default_value (snd x) \<in> ?D" for b
    using that by force
  from c consider "cls = LSTDriveContainer" | "cls = LSTServiceContainer"
    | "cls = LSTEventContainer" | "cls = LSTMonitoringContainer" | "cls = LSTCameraContainer"
    | "cls = LSTContainer" | "cls = LSTDataContainer DataContainer MonitoringContainer_inst"
    by (auto simp: module_containers_def)
  then show ?thesis
  proof cases
    case 1
    with m have "(k, f) \<in> set LSTDriveContainer_body" by (simp add: LSTDriveContainer_fields)
    then show ?thesis
      by (rule body [THEN disjI1]) (simp add: LSTDriveContainer_body_def module_defaults_def)
  next
    case 2
    with m have "(k, f) \<in> set LSTServiceContainer_body" by (simp add: LSTServiceContainer_fields)
    then show ?thesis
      by (rule body [THEN disjI1]) (simp add: LSTServiceContainer_body_def module_defaults_def)
  next
    case 3
    with m have "(k, f) \<in> set LSTEventContainer_body" by (simp add: LSTEventContainer_fields)
    then show ?thesis
      by (rule body [THEN disjI1]) (simp add: LSTEventContainer_body_def module_defaults_def)
  next
    case 4
    with m have "(k, f) \<in> set LSTMonitoringContainer_body"
      by (simp add: LSTMonitoringContainer_fields)
    then show ?thesis
      by (rule body [THEN disjI1]) (simp add: LSTMonitoringContainer_body_def module_defaults_def)
  next
    case 5
    with m have "(k, f) \<in> set LSTCameraContainer_body" by (simp add: LSTCameraContainer_fields)
    then show ?thesis
      by (rule body [THEN disjI1]) (simp add: LSTCameraContainer_body_def module_defaults_def)
  next
    case 6
    with m have "(k, f) \<in> set LSTContainer_body" by (simp add: LSTContainer_fields)
    then show ?thesis
      by (rule body [THEN disjI1]) (simp add: LSTContainer_body_def module_defaults_def)
  next
    case 7
    with m have "(k, f) \<in> set (fold (\<lambda>(k, f). AList.update k f)
        (cfields DataContainer @ LSTDataContainer_body MonitoringContainer_inst) [])"
      by (simp add: LSTDataContainer_def container_class_def del: fold_append)
    from fold_update_subset [OF this]
    have "(k, f) \<in> set (cfields DataContainer) \<or>
          (k, f) \<in> set (LSTDataContainer_body MonitoringContainer_inst)" by auto
    then show ?thesis
    proof
      assume "(k, f) \<in> set (cfields DataContainer)"
      with 7 show ?thesis by simp
    next
      assume "(k, f) \<in> set (LSTDataContainer_body MonitoringContainer_inst)"
      then show ?thesis
        by (rule body [THEN disjI1]) (simp add: LSTDataContainer_body_def module_defaults_def)
    qed
  qed
qed

theorem declared_defaults_kinds_witness:
  "LSTServiceContainer \<in> set (module_containers Container PyNone) \<and>
   (''cs_serial'', Field PyNone ''serial number of the camera server'' None)
      \<in> set (cfields LSTServiceContainer) \<and>
   PyNone \<in> set (module_defaults PyNone) \<and>
   LSTServiceContainer \<noteq> LSTDataContainer Container PyNone"
proof -
  have c: "LSTServiceContainer \<in> set (module_containers Container PyNone)"
    by (simp add: module_containers_def)
  have m: "(''cs_serial'', Field PyNone ''serial number of the camera server'' None)
      \<in> set (cfields LSTServiceContainer)"
    by (simp add: LSTServiceContainer_fields LSTServiceContainer_body_def)
  have ne: "LSTServiceContainer \<noteq> LSTDataContainer Container PyNone"
    by (simp add: LSTServiceContainer_def LSTDataContainer_def container_class_def)
  from declared_defaults_kinds [OF c m] c m ne show ?thesis by auto
qed

text \<open>
  C3. In a fresh \<^verbatim>\<open>LSTContainer\<close>, looking up any integer key \<open>k\<close> in the \<^verbatim>\<open>tel\<close>
  mapping raises nothing and returns an \<^verbatim>\<open>LSTCameraContainer\<close> with every field at its
  default, built in cells allocated by the lookup; the mapping keeps it under \<open>k\<close>, so a
  second lookup returns the same object.
\<close>

theorem tel_lookup_builds_default_camera:
  assumes "new LSTContainer h0 = (r, h)"
  shows "\<exists>m c h'. getattr h r ''tel'' = Inr m \<and> Map_getitem h m k = Inr (c, h') \<and>
           stored h' (length h) (length h') c (instantiate LSTCameraContainer) \<and>
           Map_getitem h' m k = Inr (c, h')"
proof -
  from assms have r: "r = VRef (length h0 + 2)" and h: "h = snd (new LSTContainer h0)"
    by (simp_all add: new_LSTContainer)
  have g: "getattr h r ''tel'' = Inr (VRef (length h0 + 1))"
    unfolding r h new_LSTContainer snd_conv
    by (simp add: getattr_def deref_def lookup_def nth_append)
  have l: "lookup h (length h0 + 1) = Some (OMap (instantiate LSTCameraContainer) [])"
    unfolding h new_LSTContainer snd_conv by (simp add: lookup_def nth_append)
  from Map_getitem_missing [OF l, of k] g show ?thesis by auto
qed

theorem tel_lookup_builds_default_camera_witness:
  "new LSTContainer [] =
     (VRef 2, [OList [], OMap (instantiate LSTCameraContainer) [],
        OInstance ''LSTContainer'' [(''tels_with_data'', VRef 0), (''tel'', VRef 1)]]) \<and>
   getattr (snd (new LSTContainer [])) (VRef 2) ''tel'' = Inr (VRef 1) \<and>
   (\<exists>h'. Map_getitem (snd (new LSTContainer [])) (VRef 1) 5 = Inr (VRef 28, h') \<and>
      stored h' 3 (length h') (VRef 28) (instantiate LSTCameraContainer))"
proof -
  let ?h = "[OList [], OMap (instantiate LSTCameraContainer) [],
        OInstance ''LSTContainer'' [(''tels_with_data'', VRef 0), (''tel'', VRef 1)]]"
  have n: "new LSTContainer [] = (VRef 2, ?h)"
    by (simp add: new_LSTContainer)
  have g: "getattr ?h (VRef 2) ''tel'' = Inr (VRef 1)"
    by (simp add: getattr_def deref_def lookup_def)
  have c: "fst (deepcopy (instantiate LSTCameraContainer) ?h) = VRef 28"
    by (simp add: instantiate_def LSTCameraContainer_fields LSTCameraContainer_body_def
        LSTEventContainer_fields LSTEventContainer_body_def
        LSTServiceContainer_fields LSTServiceContainer_body_def
        LSTMonitoringContainer_fields LSTMonitoringContainer_body_def
        LSTDriveContainer_fields LSTDriveContainer_body_def alloc_obj_def)
  obtain c' h1 where d: "deepcopy (instantiate LSTCameraContainer) ?h = (c', h1)"
    by (cases "deepcopy (instantiate LSTCameraContainer) ?h")
  with c have c': "c' = VRef 28" by simp
  have e: "\<exists>h'. Map_getitem ?h (VRef 1) 5 = Inr (VRef 28, h')"
    using d c' by (simp add: Map_getitem_def lookup_def)
  from tel_lookup_builds_default_camera [OF n, of 5] g e n show ?thesis
    by (auto simp: numeral_3_eq_3)
qed

text \<open>
  C4. For every container class of the module, every field \<open>k\<close> of it and every value
  \<open>v\<close>: on a fresh instance, assigning \<open>v\<close> to \<open>k\<close> succeeds, reading \<open>k\<close> back returns
  \<open>v\<close> itself, and every other attribute reads as before.
\<close>

theorem set_then_get_roundtrip:
  assumes c: "cls \<in> set (module_containers DataContainer MonitoringContainer_inst)"
    and m: "(k, f) \<in> set (cfields cls)"
    and n: "new cls h0 = (r, h)"
  shows "\<exists>h'. setattr h r k v = Inr h' \<and> getattr h' r k = Inr v \<and>
           (\<forall>k'. k' \<noteq> k \<longrightarrow> getattr h' r k' = getattr h r k')"
proof -
  let ?ks = "map fst (cfields cls)"
  from new_shape [OF n] obtain vs where len: "length vs = length (cfields cls)"
    and ad: "addr_in (length h0) (length h) r"
    and dr: "deref h r = Some (OInstance (cname cls) (zip ?ks vs))"
    by blast
  from ad obtain p where r: "r = VRef p" and p: "p < length h"
    by (cases r) (auto simp: addr_in_def)
  from dr r have l: "lookup h p = Some (OInstance (cname cls) (zip ?ks vs))"
    by (simp add: deref_def)
  from m have "k \<in> set ?ks" by force
  with len have kin: "k \<in> set (map fst (zip ?ks vs))" by simp
  let ?h' = "h[p := OInstance (cname cls) (AList.update k v (zip ?ks vs))]"
  from l kin r have s: "setattr h r k v = Inr ?h'" by (simp add: setattr_def)
  from p have l': "lookup ?h' p = Some (OInstance (cname cls) (AList.update k v (zip ?ks vs)))"
    by (simp add: lookup_def)
  then have g: "getattr ?h' r k = Inr v"
    by (simp add: getattr_def deref_def r map_of_update_same)
  have o: "getattr ?h' r k' = getattr h r k'" if "k' \<noteq> k" for k'
    using l l' that by (simp add: getattr_def deref_def r map_of_update_other)
  from s g o show ?thesis by blast
qed

theorem set_then_get_roundtrip_witness:
  "LSTDriveContainer \<in> set (module_containers Container PyNone) \<and>
   fst (new LSTDriveContainer []) = VRef 8 \<and>
   (\<exists>h'. setattr (snd (new LSTDriveContainer [])) (VRef 8) ''date'' (VStr ''2019-11-20'') = Inr h' \<and>
      getattr h' (VRef 8) ''date'' = Inr (VStr ''2019-11-20'') \<and>
      getattr h' (VRef 8) ''epoch'' = Inr (VInt (- 1)))"
proof -
  let ?d = "new LSTDriveContainer []"
  have c: "LSTDriveContainer \<in> set (module_containers Container PyNone)"
    by (simp add: module_containers_def)
  have m: "(''date'', Field (PyStr '' '') ''observation date'' None) \<in> set (cfields LSTDriveContainer)"
    by (simp add: LSTDriveContainer_fields LSTDriveContainer_body_def)
  have f: "fst ?d = VRef 8"
    and g: "getattr (snd ?d) (VRef 8) ''epoch'' = Inr (VInt (- 1))"
    by (simp_all add: new_def LSTDriveContainer_fields LSTDriveContainer_body_def alloc_obj_def
        getattr_def deref_def lookup_def)
  from f have n: "new LSTDriveContainer [] = (VRef 8, snd ?d)" by (metis prod.collapse)
  from set_then_get_roundtrip [OF c m n, of "VStr ''2019-11-20''"] obtain h' where
    s: "setattr (snd ?d) (VRef 8) ''date'' (VStr ''2019-11-20'') = Inr h'"
    and g1: "getattr h' (VRef 8) ''date'' = Inr (VStr ''2019-11-20'')"
    and o: "\<forall>k'. k' \<noteq> ''date'' \<longrightarrow> getattr h' (VRef 8) k' = getattr (snd ?d) (VRef 8) k'"
    by blast
  from o have "getattr h' (VRef 8) ''epoch'' = getattr (snd ?d) (VRef 8) ''epoch''" by simp
  with g s g1 c f show ?thesis by auto
qed

text \<open>
  C5. Each of the eight angle fields of \<^verbatim>\<open>LSTDriveContainer\<close> is declared with the default
  not-a-number in radian and with the unit radian, which is an angular unit; in a fresh
  instance each of them refers to a quantity object holding not-a-number in radian.
\<close>

theorem drive_angles_default_nan_rad:
  assumes n: "new LSTDriveContainer h0 = (r, h)"
    and k: "k \<in> set [''azimuth_avg'', ''azimuth_min'', ''azimuth_max'', ''azimuth_rmse'',
                      ''altitude_avg'', ''altitude_min'', ''altitude_max'', ''altitude_rmse'']"
  shows "(\<exists>f. map_of (cfields LSTDriveContainer) k = Some f \<and>
              default_value f = Quantity nan u_rad \<and> unit_of f = Some u_rad) \<and>
         physical_type u_rad = ''angle'' \<and>
         (\<exists>p. getattr h r k = Inr (VRef p) \<and> lookup h p = Some (OQuantity nan u_rad))"
proof -
  from k obtain f where m: "map_of (cfields LSTDriveContainer) k = Some f"
    and d: "default_value f = Quantity nan u_rad" and u: "unit_of f = Some u_rad"
    by (auto simp: LSTDriveContainer_fields LSTDriveContainer_body_def)
  from m have "(k, f) \<in> set (cfields LSTDriveContainer)" by (rule map_of_SomeD)
  moreover have "distinct (map fst (cfields LSTDriveContainer))"
    unfolding LSTDriveContainer_def by (rule container_class_distinct)
  ultimately obtain v where g: "getattr h r k = Inr v"
    and s: "stored h (length h0) (length h) v (Quantity nan u_rad)"
    using fresh_field [OF _ n, of k f] d by auto
  from s obtain p where "v = VRef p" "lookup h p = Some (OQuantity nan u_rad)"
    by (cases v) (auto simp: addr_in_def deref_def)
  with g m d u show ?thesis by auto
qed

theorem drive_angles_default_nan_rad_witness:
  "fst (new LSTDriveContainer []) = VRef 8 \<and>
   getattr (snd (new LSTDriveContainer [])) (VRef 8) ''altitude_rmse'' = Inr (VRef 7) \<and>
   lookup (snd (new LSTDriveContainer [])) 7 = Some (OQuantity nan u_rad) \<and>
   physical_type u_rad = ''angle''"
proof -
  let ?d = "new LSTDriveContainer []"
  have f: "fst ?d = VRef 8"
    and g: "getattr (snd ?d) (VRef 8) ''altitude_rmse'' = Inr (VRef 7)"
    by (simp_all add: new_def LSTDriveContainer_fields LSTDriveContainer_body_def alloc_obj_def
        getattr_def deref_def lookup_def)
  from f have n: "new LSTDriveContainer [] = (VRef 8, snd ?d)" by (metis prod.collapse)
  have k: "''altitude_rmse'' \<in> set [''azimuth_avg'', ''azimuth_min'', ''azimuth_max'',
     ''azimuth_rmse'', ''altitude_avg'', ''altitude_min'', ''altitude_max'', ''altitude_rmse'']"
    by simp
  from drive_angles_default_nan_rad [OF n k] f g show ?thesis by auto
qed

text \<open>
  C6. A fresh \<^verbatim>\<open>LSTCameraContainer\<close> has exactly the attributes \<^verbatim>\<open>evt\<close>, \<^verbatim>\<open>svc\<close> and
  \<^verbatim>\<open>mon\<close>, holding a default \<^verbatim>\<open>LSTEventContainer\<close>, \<^verbatim>\<open>LSTServiceContainer\<close> and
  \<^verbatim>\<open>LSTMonitoringContainer\<close>; a fresh \<^verbatim>\<open>LSTMonitoringContainer\<close> has exactly the
  attribute \<^verbatim>\<open>drive\<close>, holding a default \<^verbatim>\<open>LSTDriveContainer\<close>.
\<close>

theorem camera_and_monitoring_nesting:
  "(new LSTCameraContainer h0 = (r, h) \<longrightarrow>
      (\<exists>e s m. deref h r = Some (OInstance ''LSTCameraContainer''
                   [(''evt'', e), (''svc'', s), (''mon'', m)]) \<and>
         stored h (length h0) (length h) e (instantiate LSTEventContainer) \<and>
         stored h (length h0) (length h) s (instantiate LSTServiceContainer) \<and>
         stored h (length h0) (length h) m (instantiate LSTMonitoringContainer))) \<and>
   (new LSTMonitoringContainer h0' = (r', h') \<longrightarrow>
      (\<exists>d. deref h' r' = Some (OInstance ''LSTMonitoringContainer'' [(''drive'', d)]) \<and>
         stored h' (length h0') (length h') d (instantiate LSTDriveContainer)))"
proof (intro conjI impI)
  assume n: "new LSTCameraContainer h0 = (r, h)"
  from new_shape [OF n] obtain vs where
    "length vs = length (cfields LSTCameraContainer)"
    "deref h r = Some (OInstance (cname LSTCameraContainer)
       (zip (map fst (cfields LSTCameraContainer)) vs))"
    "stored_list h (length h0) (length h) vs
       (map (\<lambda>(k, f). default_value f) (cfields LSTCameraContainer))"
    by blast
  then have len: "length vs = 3"
    and dr: "deref h r = Some (OInstance ''LSTCameraContainer'' (zip [''evt'', ''svc'', ''mon''] vs))"
    and st: "stored_list h (length h0) (length h) vs
        [instantiate LSTEventContainer, instantiate LSTServiceContainer,
         instantiate LSTMonitoringContainer]"
    by (simp_all add: LSTCameraContainer_fields LSTCameraContainer_body_def)
  from len obtain e s m where vs: "vs = [e, s, m]"
    by (auto simp: length_Suc_conv numeral_3_eq_3)
  from dr st show "\<exists>e s m. deref h r = Some (OInstance ''LSTCameraContainer''
                   [(''evt'', e), (''svc'', s), (''mon'', m)]) \<and>
         stored h (length h0) (length h) e (instantiate LSTEventContainer) \<and>
         stored h (length h0) (length h) s (instantiate LSTServiceContainer) \<and>
         stored h (length h0) (length h) m (instantiate LSTMonitoringContainer)"
    unfolding vs by simp
next
  assume n: "new LSTMonitoringContainer h0' = (r', h')"
  from new_shape [OF n] obtain vs where
    "length vs = length (cfields LSTMonitoringContainer)"
    "deref h' r' = Some (OInstance (cname LSTMonitoringContainer)
       (zip (map fst (cfields LSTMonitoringContainer)) vs))"
    "stored_list h' (length h0') (length h') vs
       (map (\<lambda>(k, f). default_value f) (cfields LSTMonitoringContainer))"
    by blast
  then have len: "length vs = 1"
    and dr: "deref h' r' = Some (OInstance ''LSTMonitoringContainer'' (zip [''drive''] vs))"
    and st: "stored_list h' (length h0') (length h') vs [instantiate LSTDriveContainer]"
    by (simp_all add: LSTMonitoringContainer_fields LSTMonitoringContainer_body_def)
  from len obtain d where vs: "vs = [d]"
    by (auto simp: length_Suc_conv)
  from dr st show "\<exists>d. deref h' r' = Some (OInstance ''LSTMonitoringContainer'' [(''drive'', d)]) \<and>
         stored h' (length h0') (length h') d (instantiate LSTDriveContainer)"
    unfolding vs by simp
qed

theorem camera_and_monitoring_nesting_witness:
  "fst (new LSTCameraContainer []) = VRef 25 \<and>
   deref (snd (new LSTCameraContainer [])) (VRef 25) =
     Some (OInstance ''LSTCameraContainer''
       [(''evt'', VRef 11), (''svc'', VRef 14), (''mon'', VRef 24)]) \<and>
   stored (snd (new LSTCameraContainer [])) 0 26 (VRef 11) (instantiate LSTEventContainer) \<and>
   stored (snd (new LSTCameraContainer [])) 0 26 (VRef 14) (instantiate LSTServiceContainer) \<and>
   stored (snd (new LSTCameraContainer [])) 0 26 (VRef 24) (instantiate LSTMonitoringContainer) \<and>
   fst (new LSTMonitoringContainer []) = VRef 9 \<and>
   deref (snd (new LSTMonitoringContainer [])) (VRef 9) =
     Some (OInstance ''LSTMonitoringContainer'' [(''drive'', VRef 8)]) \<and>
   stored (snd (new LSTMonitoringContainer [])) 0 10 (VRef 8) (instantiate LSTDriveContainer)"
proof -
  let ?c = "new LSTCameraContainer []" and ?m = "new LSTMonitoringContainer []"
  have fc: "fst ?c = VRef 25" and lc: "length (snd ?c) = 26"
    and dc: "deref (snd ?c) (VRef 25) =
     Some (OInstance ''LSTCameraContainer''
       [(''evt'', VRef 11), (''svc'', VRef 14), (''mon'', VRef 24)])"
    by (simp_all add: new_def instantiate_def LSTCameraContainer_fields LSTCameraContainer_body_def
        LSTEventContainer_fields LSTEventContainer_body_def
        LSTServiceContainer_fields LSTServiceContainer_body_def
        LSTMonitoringContainer_fields LSTMonitoringContainer_body_def
        LSTDriveContainer_fields LSTDriveContainer_body_def alloc_obj_def deref_def lookup_def)
  have fm: "fst ?m = VRef 9" and lm: "length (snd ?m) = 10"
    and dm: "deref (snd ?m) (VRef 9) =
      Some (OInstance ''LSTMonitoringContainer'' [(''drive'', VRef 8)])"
    by (simp_all add: new_LSTMonitoringContainer deref_def lookup_def)
  from fc have nc: "new LSTCameraContainer [] = (VRef 25, snd ?c)" by (metis prod.collapse)
  from fm have nm: "new LSTMonitoringContainer [] = (VRef 9, snd ?m)" by (metis prod.collapse)
  from camera_and_monitoring_nesting [of "[]" "VRef 25" "snd ?c" "[]" "VRef 9" "snd ?m"]
    nc nm dc dm lc lm fc fm
  show ?thesis by auto
qed

text \<open>
  C7, as stated, fails: from a fresh \<^verbatim>\<open>LSTContainer\<close>, building the list \<^verbatim>\<open>[1]\<close> and
  assigning it to \<^verbatim>\<open>tels_with_data\<close> succeeds and leaves telescope 1 listed with no
  entry in \<^verbatim>\<open>tel\<close>.
\<close>

theorem tels_invariant_counterexample:
  "run (snd (new LSTContainer [])) (fst (new LSTContainer []))
      [Build (PyList [PyInt 1]), SetField ''tels_with_data'' (VRef 3)] =
     Inr [OList [], OMap (instantiate LSTCameraContainer) [],
          OInstance ''LSTContainer'' [(''tels_with_data'', VRef 3), (''tel'', VRef 1)],
          OList [VInt 1]] \<and>
   \<not> tels_with_data_have_entries
      [OList [], OMap (instantiate LSTCameraContainer) [],
       OInstance ''LSTContainer'' [(''tels_with_data'', VRef 3), (''tel'', VRef 1)],
       OList [VInt 1]]
      (fst (new LSTContainer []))"
  by (simp add: new_LSTContainer alloc_obj_def setattr_def lookup_def tels_with_data_have_entries_def
      listed_in_tel_def getattr_def deref_def)

text \<open>
  C7, amended. From a fresh \<^verbatim>\<open>LSTContainer\<close>, every run of map insertions, of
  constructions of new values and of assignments to \<^verbatim>\<open>tels_with_data\<close> of a list whose
  members are all keys of the \<^verbatim>\<open>tel\<close> mapping at that moment raises nothing and ends in
  a state where every telescope id in \<^verbatim>\<open>tels_with_data\<close> has an entry in \<^verbatim>\<open>tel\<close>.
\<close>

theorem guarded_runs_keep_tels_invariant:
  assumes "new LSTContainer h0 = (r, h)" and "run_allowed h r ss"
  shows "\<exists>h'. run h r ss = Inr h' \<and> tels_with_data_have_entries h' r"
  using tel_layout_run [OF tel_layout_new [OF assms(1)] assms(2)] tel_layout_inv by blast

theorem guarded_runs_keep_tels_invariant_witness:
  "fst (new LSTContainer []) = VRef 2 \<and>
   run_allowed (snd (new LSTContainer [])) (VRef 2)
     [Build (PyList [PyInt 1]), MapInsert 1 VNone, SetField ''tels_with_data'' (VRef 3)] \<and>
   (\<exists>h'. run (snd (new LSTContainer [])) (VRef 2)
       [Build (PyList [PyInt 1]), MapInsert 1 VNone, SetField ''tels_with_data'' (VRef 3)] = Inr h' \<and>
      tels_with_data_have_entries h' (VRef 2))"
proof -
  let ?ss = "[Build (PyList [PyInt 1]), MapInsert 1 VNone, SetField ''tels_with_data'' (VRef 3)]"
  have f: "fst (new LSTContainer []) = VRef 2" by (simp add: new_LSTContainer)
  then have n: "new LSTContainer [] = (VRef 2, snd (new LSTContainer []))"
    by (metis prod.collapse)
  have a: "run_allowed (snd (new LSTContainer [])) (VRef 2) ?ss"
    by (simp add: new_LSTContainer alloc_obj_def setattr_def lookup_def Map_setitem_def
        listed_in_tel_def getattr_def deref_def)
  from guarded_runs_keep_tels_invariant [OF n a] f a show ?thesis by blast
qed

text \<open>
  C8. Two instances of a class built one after the other share no mutable object: the
  first and all its sub-records, lists and quantities lie in the cells allocated by the
  first construction, the second in those of the second, and the two ranges are disjoint.
  So an attribute assignment, a list append or a map insertion on any object of the first
  instance (its drive sub-record, its \<^verbatim>\<open>pixel_ids\<close> list) leaves the second instance
  with every field, at every depth, at its default.
\<close>

theorem fresh_instances_share_nothing:
  assumes na: "new cls h0 = (a, h1)" and nb: "new cls h1 = (b, h2)"
  shows "stored h2 (length h0) (length h1) a (instantiate cls) \<and>
         stored h2 (length h1) (length h2) b (instantiate cls) \<and>
         length h0 < length h1 \<and> length h1 < length h2 \<and>
         (addr_in (length h0) (length h1) x \<and>
            (setattr h2 x k v = Inr h' \<or> list_append h2 x v = Inr h' \<or>
             Map_setitem h2 x i v = Inr h') \<longrightarrow>
            stored h' (length h1) (length h2) b (instantiate cls))"
proof -
  from na have sa1: "stored h1 (length h0) (length h1) a (instantiate cls)"
    using deepcopy_stored(1) [of "instantiate cls" h0 a h1] by (simp add: new_deepcopy)
  from nb have sb: "stored h2 (length h1) (length h2) b (instantiate cls)"
    using deepcopy_stored(1) [of "instantiate cls" h1 b h2] by (simp add: new_deepcopy)
  from nb obtain ext where e: "h2 = h1 @ ext"
    using deepcopy_extends(1) [of "instantiate cls" h1 b h2] by (auto simp: new_deepcopy)
  have sa: "stored h2 (length h0) (length h1) a (instantiate cls)"
    using stored_frame(1) [OF sa1, of "length h0" "length h1" h2] e
    by (simp add: lookup_append_old)
  have fr: "stored h' (length h1) (length h2) b (instantiate cls)"
    if x: "addr_in (length h0) (length h1) x"
      and m: "setattr h2 x k v = Inr h' \<or> list_append h2 x v = Inr h' \<or>
              Map_setitem h2 x i v = Inr h'"
  proof -
    from mutation_one_cell [OF m] obtain p ob where p: "x = VRef p" and h': "h' = h2[p := ob]"
      by blast
    from x p have "p < length h1" by (simp add: addr_in_def)
    with stored_update_outside [OF sb, of p ob] h' show ?thesis by simp
  qed
  from sa sb new_grows [OF na] new_grows [OF nb] fr show ?thesis by blast
qed

theorem fresh_instances_share_nothing_witness:
  "(\<exists>h'. setattr (snd (new LSTMonitoringContainer (snd (new LSTMonitoringContainer []))))
            (VRef 8) ''date'' (VStr ''2019-11-20'') = Inr h' \<and>
         getattr h' (VRef 8) ''date'' = Inr (VStr ''2019-11-20'') \<and>
         getattr h' (VRef 18) ''date'' = Inr (VStr '' '') \<and>
         stored h' 10 20 (VRef 19) (instantiate LSTMonitoringContainer)) \<and>
   (\<exists>h'. list_append (snd (new LSTServiceContainer (snd (new LSTServiceContainer []))))
            (VRef 0) (VInt 7) = Inr h' \<and>
         lookup h' 0 = Some (OList [VInt 7]) \<and>
         lookup h' 3 = Some (OList []) \<and>
         stored h' 3 6 (VRef 5) (instantiate LSTServiceContainer))"
proof -
  let ?m1 = "snd (new LSTMonitoringContainer [])"
  let ?m2 = "snd (new LSTMonitoringContainer ?m1)"
  let ?s1 = "snd (new LSTServiceContainer [])"
  let ?s2 = "snd (new LSTServiceContainer ?s1)"
  have m1: "new LSTMonitoringContainer [] = (VRef 9, ?m1)" and lm1: "length ?m1 = 10"
    by (simp_all add: new_LSTMonitoringContainer)
  have m2: "new LSTMonitoringContainer ?m1 = (VRef 19, ?m2)" and lm2: "length ?m2 = 20"
    by (simp_all add: new_LSTMonitoringContainer)
  have s1: "new LSTServiceContainer [] = (VRef 2, ?s1)" and ls1: "length ?s1 = 3"
    by (simp_all add: new_LSTServiceContainer)
  have s2: "new LSTServiceContainer ?s1 = (VRef 5, ?s2)" and ls2: "length ?s2 = 6"
    by (simp_all add: new_LSTServiceContainer)
  obtain hm where hm: "setattr ?m2 (VRef 8) ''date'' (VStr ''2019-11-20'') = Inr hm"
    and g8: "getattr hm (VRef 8) ''date'' = Inr (VStr ''2019-11-20'')"
    and g18: "getattr hm (VRef 18) ''date'' = Inr (VStr '' '')"
    by (simp add: new_LSTMonitoringContainer setattr_def getattr_def deref_def lookup_def
        nth_append)
  obtain hs where hs: "list_append ?s2 (VRef 0) (VInt 7) = Inr hs"
    and l0: "lookup hs 0 = Some (OList [VInt 7])" and l3: "lookup hs 3 = Some (OList [])"
    by (simp add: new_LSTServiceContainer list_append_def lookup_def nth_append)
  have am: "addr_in 0 10 (VRef 8)" and as: "addr_in 0 3 (VRef 0)"
    by (simp_all add: addr_in_def)
  from fresh_instances_share_nothing [OF m1 m2, where x = "VRef 8" and k = "''date''"
      and v = "VStr ''2019-11-20''" and h' = hm] am hm
  have "stored hm 10 20 (VRef 19) (instantiate LSTMonitoringContainer)"
    by (simp add: lm1 lm2)
  moreover
  from fresh_instances_share_nothing [OF s1 s2, where x = "VRef 0" and v = "VInt 7"
      and h' = hs] as hs
  have "stored hs 3 6 (VRef 5) (instantiate LSTServiceContainer)"
    by (simp add: ls1 ls2)
  ultimately show ?thesis using hm g8 g18 hs l0 l3 by blast
qed

text \<open>
  C9. A freshly built \<^verbatim>\<open>LSTContainer\<close> has an empty \<^verbatim>\<open>tels_with_data\<close> list and a
  \<^verbatim>\<open>tel\<close> mapping with no key (and the factory \<^verbatim>\<open>LSTCameraContainer\<close>), so the
  correspondence between the two holds in it.
\<close>

theorem fresh_LSTContainer_is_empty:
  assumes "new LSTContainer h0 = (r, h)"
  shows "\<exists>p q. getattr h r ''tels_with_data'' = Inr (VRef p) \<and> lookup h p = Some (OList []) \<and>
           getattr h r ''tel'' = Inr (VRef q) \<and>
           lookup h q = Some (OMap (instantiate LSTCameraContainer) []) \<and>
           tels_with_data_have_entries h r"
proof -
  from assms have r: "r = VRef (length h0 + 2)" and h: "h = snd (new LSTContainer h0)"
    by (simp_all add: new_LSTContainer)
  show ?thesis unfolding r h new_LSTContainer snd_conv
    by (simp add: getattr_def tels_with_data_have_entries_def listed_in_tel_def deref_def
        lookup_def nth_append)
qed

theorem fresh_LSTContainer_is_empty_witness:
  "new LSTContainer [] =
     (VRef 2, [OList [], OMap (instantiate LSTCameraContainer) [],
        OInstance ''LSTContainer'' [(''tels_with_data'', VRef 0), (''tel'', VRef 1)]]) \<and>
   tels_with_data_have_entries (snd (new LSTContainer [])) (VRef 2)"
proof -
  have n: "new LSTContainer [] =
     (VRef 2, [OList [], OMap (instantiate LSTCameraContainer) [],
        OInstance ''LSTContainer'' [(''tels_with_data'', VRef 0), (''tel'', VRef 1)]])"
    by (simp add: new_LSTContainer)
  from fresh_LSTContainer_is_empty [OF n] n show ?thesis by auto
qed

text \<open>
  C10. In a fresh \<^verbatim>\<open>LSTServiceContainer\<close> the fields \<^verbatim>\<open>idaq_version\<close> and
  \<^verbatim>\<open>cdhs_version\<close> hold the integer 0, and assigning 0 to either leaves the store as it
  is: the default cannot be told from a version 0 that was written.
\<close>

theorem service_versions_default_zero:
  assumes "new LSTServiceContainer h0 = (r, h)"
  shows "getattr h r ''idaq_version'' = Inr (VInt 0) \<and>
         getattr h r ''cdhs_version'' = Inr (VInt 0) \<and>
         setattr h r ''idaq_version'' (VInt 0) = Inr h \<and>
         setattr h r ''cdhs_version'' (VInt 0) = Inr h"
proof -
  from assms have r: "r = VRef (length h0 + 2)" and h: "h = snd (new LSTServiceContainer h0)"
    by (simp_all add: new_LSTServiceContainer)
  show ?thesis unfolding r h new_LSTServiceContainer snd_conv
    by (simp add: getattr_def setattr_def deref_def lookup_def nth_append list_update_append)
qed

theorem service_versions_default_zero_witness:
  "fst (new LSTServiceContainer []) = VRef 2 \<and>
   getattr (snd (new LSTServiceContainer [])) (VRef 2) ''idaq_version'' = Inr (VInt 0) \<and>
   getattr (snd (new LSTServiceContainer [])) (VRef 2) ''cdhs_version'' = Inr (VInt 0) \<and>
   setattr (snd (new LSTServiceContainer [])) (VRef 2) ''idaq_version'' (VInt 0) =
     Inr (snd (new LSTServiceContainer []))"
proof -
  have f: "fst (new LSTServiceContainer []) = VRef 2"
    by (simp add: new_LSTServiceContainer)
  then have n: "new LSTServiceContainer [] = (VRef 2, snd (new LSTServiceContainer []))"
    by (metis prod.collapse)
  from service_versions_default_zero [OF n] f show ?thesis by blast
qed

end
